theory Spec2Isabelle
  imports Complex_Main
begin

section \<open>External collaborators of EngineInstrumentation\<close>

subsection \<open>The engine: observables and timer queries\<close>

text \<open>
  An \<open>Observer\<close> and a \<open>_TimeToken\<close> are objects; all the instrumentation does with
  them is to store them, test them against null and hand them back to the engine. They are
  modelled by their identity, a number that is fresh at creation.
\<close>

type_synonym Observer = nat
type_synonym TimeToken = nat

text \<open>
  Dereferencing \<open>this.engine\<close> after \<open>dispose\<close> has set it to null throws a TypeError.
  In every function below the throw happens before the first write, so an error result
  carries no state: the state is the one before the call.
\<close>

datatype error = TypeError

text \<open>
  Modelled from the spec: class \<open>Engine\<close> is not in the source. Of the engine the model
  keeps the four observables the instrumentation subscribes to, each as the list of its
  registered observers in registration order, the number of observers created so far
  (the identity of the next one) and the number of timer queries started so far.
\<close>

record Engine =
  onBeginFrameObservable :: "Observer list"
  onEndFrameObservable :: "Observer list"
  onBeforeShaderCompilationObservable :: "Observer list"
  onAfterShaderCompilationObservable :: "Observer list"
  observersCreated :: nat
  timeQueriesStarted :: nat

text \<open>
  Modelled from the spec: \<open>Observable.add(callback)\<close> registers the callback and returns
  its handle; \<open>Observable.remove(handle)\<close> unregisters it and is safe on null and on a
  handle that is no longer registered.
\<close>

definition Observable_add :: "Observer list \<Rightarrow> Observer \<Rightarrow> Observer list" where
  "Observable_add observers h = observers @ [h]"

definition Observable_remove :: "Observer list \<Rightarrow> Observer option \<Rightarrow> Observer list" where
  "Observable_remove observers h =
     (case h of None \<Rightarrow> observers | Some x \<Rightarrow> remove1 x observers)"

definition onBeginFrameObservable_add :: "Engine \<Rightarrow> Observer \<times> Engine" where
  "onBeginFrameObservable_add e =
     (let h = observersCreated e
      in (h, e\<lparr>onBeginFrameObservable := Observable_add (onBeginFrameObservable e) h,
                observersCreated := Suc h\<rparr>))"

definition onEndFrameObservable_add :: "Engine \<Rightarrow> Observer \<times> Engine" where
  "onEndFrameObservable_add e =
     (let h = observersCreated e
      in (h, e\<lparr>onEndFrameObservable := Observable_add (onEndFrameObservable e) h,
                observersCreated := Suc h\<rparr>))"

definition onBeforeShaderCompilationObservable_add :: "Engine \<Rightarrow> Observer \<times> Engine" where
  "onBeforeShaderCompilationObservable_add e =
     (let h = observersCreated e
      in (h, e\<lparr>onBeforeShaderCompilationObservable :=
                  Observable_add (onBeforeShaderCompilationObservable e) h,
                observersCreated := Suc h\<rparr>))"

definition onAfterShaderCompilationObservable_add :: "Engine \<Rightarrow> Observer \<times> Engine" where
  "onAfterShaderCompilationObservable_add e =
     (let h = observersCreated e
      in (h, e\<lparr>onAfterShaderCompilationObservable :=
                  Observable_add (onAfterShaderCompilationObservable e) h,
                observersCreated := Suc h\<rparr>))"

text \<open>
  Modelled from the spec: \<open>startTimeQuery()\<close> issues a timer query and returns its token.
  \<open>endTimeQuery(token)\<close> returns a number, what the GPU reports at the moment of the
  call: the elapsed time, or a negative value while the result is not ready. The
  end-frame callback below takes that answer as its argument \<open>time\<close>; nothing in the
  source makes it a whole number, so it is a real.
\<close>

definition startTimeQuery :: "Engine \<Rightarrow> TimeToken \<times> Engine" where
  "startTimeQuery e =
     (timeQueriesStarted e, e\<lparr>timeQueriesStarted := Suc (timeQueriesStarted e)\<rparr>)"

text \<open>An engine on which nobody has subscribed or started a query yet.\<close>

definition freshEngine :: Engine where
  "freshEngine =
     \<lparr>onBeginFrameObservable = [], onEndFrameObservable = [],
      onBeforeShaderCompilationObservable = [], onAfterShaderCompilationObservable = [],
      observersCreated = 0, timeQueriesStarted = 0\<rparr>"

subsection \<open>The accumulator\<close>

text \<open>
  Modelled from the spec: class \<open>PerfCounter\<close> is not in the source. The instrumentation
  is modelled for any accumulator: \<open>'c\<close> is the state of one \<open>PerfCounter\<close> object (with
  whatever it reads from its environment, such as the clock), and the record below holds
  its constructor and the four methods that the instrumentation calls.
\<close>

record 'c PerfCounter =
  new_PerfCounter :: 'c
  fetchNewFrame :: "'c \<Rightarrow> 'c"
  addCount :: "real \<Rightarrow> bool \<Rightarrow> 'c \<Rightarrow> 'c"
  beginMonitoring :: "'c \<Rightarrow> 'c"
  endMonitoring :: "'c \<Rightarrow> 'c"

text \<open>The read surface of a \<open>PerfCounter\<close>: its properties current, average, total, count.\<close>

record ('c, 'n) PerfCounter_reads =
  pc_current :: "'c \<Rightarrow> 'n"
  pc_average :: "'c \<Rightarrow> 'n"
  pc_total :: "'c \<Rightarrow> 'n"
  pc_count :: "'c \<Rightarrow> 'n"

text \<open>
  The accumulator that only remembers which methods were called on it, in order.
\<close>

datatype counter_call = FetchNewFrame | AddCount real bool | BeginMonitoring | EndMonitoring

definition callLog :: "counter_call list PerfCounter" where
  "callLog =
     \<lparr>new_PerfCounter = [],
      fetchNewFrame = (\<lambda>c. c @ [FetchNewFrame]),
      addCount = (\<lambda>newCount fetchResult c. c @ [AddCount newCount fetchResult]),
      beginMonitoring = (\<lambda>c. c @ [BeginMonitoring]),
      endMonitoring = (\<lambda>c. c @ [EndMonitoring])\<rparr>"

section \<open>class EngineInstrumentation\<close>

datatype EngineRef = EngineRef

text \<open>
  The private fields keep their names, with \<open>m_\<close> for the leading underscore. The
  constructor parameter \<open>engine\<close> is a public field holding a reference; \<open>None\<close> is null.
\<close>

record 'c EngineInstrumentation =
  m_captureGPUFrameTime :: bool
  m_gpuFrameTimeToken :: "TimeToken option"
  m_gpuFrameTime :: 'c
  m_captureShaderCompilationTime :: bool
  m_shaderCompilationTime :: 'c
  m_onBeginFrameObserver :: "Observer option"
  m_onEndFrameObserver :: "Observer option"
  m_onBeforeShaderCompilationObserver :: "Observer option"
  m_onAfterShaderCompilationObserver :: "Observer option"
  engine :: "EngineRef option"

text \<open>The two objects of the model: the engine and the instrumentation bound to it.\<close>

record 'c world =
  theEngine :: Engine
  instr :: "'c EngineInstrumentation"

definition new_EngineInstrumentation :: "'c PerfCounter \<Rightarrow> Engine \<Rightarrow> 'c world" where
  "new_EngineInstrumentation P e =
     \<lparr>theEngine = e,
      instr = \<lparr>m_captureGPUFrameTime = False,
               m_gpuFrameTimeToken = None,
               m_gpuFrameTime = new_PerfCounter P,
               m_captureShaderCompilationTime = False,
               m_shaderCompilationTime = new_PerfCounter P,
               m_onBeginFrameObserver = None,
               m_onEndFrameObserver = None,
               m_onBeforeShaderCompilationObserver = None,
               m_onAfterShaderCompilationObserver = None,
               engine = Some EngineRef\<rparr>\<rparr>"

subsection \<open>Read accessors\<close>

text \<open>A getter returns its value and the state it leaves behind.\<close>

definition gpuFrameTimeCounter :: "'c world \<Rightarrow> 'c \<times> 'c world" where
  "gpuFrameTimeCounter w = (m_gpuFrameTime (instr w), w)"

definition currentGPUFrameTime :: "('c, 'n) PerfCounter_reads \<Rightarrow> 'c world \<Rightarrow> 'n \<times> 'c world" where
  "currentGPUFrameTime R w = (pc_current R (m_gpuFrameTime (instr w)), w)"

definition averageGPUFrameTime :: "('c, 'n) PerfCounter_reads \<Rightarrow> 'c world \<Rightarrow> 'n \<times> 'c world" where
  "averageGPUFrameTime R w = (pc_average R (m_gpuFrameTime (instr w)), w)"

definition captureGPUFrameTime :: "'c world \<Rightarrow> bool \<times> 'c world" where
  "captureGPUFrameTime w = (m_captureGPUFrameTime (instr w), w)"

definition shaderCompilationTimeCounter :: "'c world \<Rightarrow> 'c \<times> 'c world" where
  "shaderCompilationTimeCounter w = (m_shaderCompilationTime (instr w), w)"

definition currentShaderCompilationTime ::
  "('c, 'n) PerfCounter_reads \<Rightarrow> 'c world \<Rightarrow> 'n \<times> 'c world" where
  "currentShaderCompilationTime R w = (pc_current R (m_shaderCompilationTime (instr w)), w)"

definition averageShaderCompilationTime ::
  "('c, 'n) PerfCounter_reads \<Rightarrow> 'c world \<Rightarrow> 'n \<times> 'c world" where
  "averageShaderCompilationTime R w = (pc_average R (m_shaderCompilationTime (instr w)), w)"

definition totalShaderCompilationTime ::
  "('c, 'n) PerfCounter_reads \<Rightarrow> 'c world \<Rightarrow> 'n \<times> 'c world" where
  "totalShaderCompilationTime R w = (pc_total R (m_shaderCompilationTime (instr w)), w)"

definition compiledShadersCount ::
  "('c, 'n) PerfCounter_reads \<Rightarrow> 'c world \<Rightarrow> 'n \<times> 'c world" where
  "compiledShadersCount R w = (pc_count R (m_shaderCompilationTime (instr w)), w)"

definition captureShaderCompilationTime :: "'c world \<Rightarrow> bool \<times> 'c world" where
  "captureShaderCompilationTime w = (m_captureShaderCompilationTime (instr w), w)"

subsection \<open>The callbacks handed to the engine\<close>

text \<open>
  Each callback is a closure over \<open>this\<close>; it reads and writes the fields of the
  instrumentation at the time the engine calls it.
\<close>

definition onBeginFrame_callback :: "'c world \<Rightarrow> error + 'c world" where
  "onBeginFrame_callback w =
     (if m_gpuFrameTimeToken (instr w) = None then
        (case engine (instr w) of
           None \<Rightarrow> Inl TypeError
         | Some _ \<Rightarrow>
             (let (token, e) = startTimeQuery (theEngine w)
              in Inr (w\<lparr>theEngine := e,
                        instr := (instr w)\<lparr>m_gpuFrameTimeToken := Some token\<rparr>\<rparr>)))
      else Inr w)"

definition onEndFrame_callback :: "'c PerfCounter \<Rightarrow> real \<Rightarrow> 'c world \<Rightarrow> error + 'c world" where
  "onEndFrame_callback P time w =
     (if m_gpuFrameTimeToken (instr w) = None then Inr w
      else
        (case engine (instr w) of
           None \<Rightarrow> Inl TypeError
         | Some _ \<Rightarrow>
             if time > - 1 then
               (let i1 = (instr w)\<lparr>m_gpuFrameTimeToken := None\<rparr>;
                    i2 = i1\<lparr>m_gpuFrameTime := fetchNewFrame P (m_gpuFrameTime i1)\<rparr>;
                    i3 = i2\<lparr>m_gpuFrameTime := addCount P time True (m_gpuFrameTime i2)\<rparr>
                in Inr (w\<lparr>instr := i3\<rparr>))
             else Inr w))"

definition onBeforeShaderCompilation_callback :: "'c PerfCounter \<Rightarrow> 'c world \<Rightarrow> error + 'c world" where
  "onBeforeShaderCompilation_callback P w =
     (let i1 = (instr w)\<lparr>m_shaderCompilationTime :=
                  fetchNewFrame P (m_shaderCompilationTime (instr w))\<rparr>;
          i2 = i1\<lparr>m_shaderCompilationTime := beginMonitoring P (m_shaderCompilationTime i1)\<rparr>
      in Inr (w\<lparr>instr := i2\<rparr>))"

definition onAfterShaderCompilation_callback :: "'c PerfCounter \<Rightarrow> 'c world \<Rightarrow> error + 'c world" where
  "onAfterShaderCompilation_callback P w =
     Inr (w\<lparr>instr := (instr w)\<lparr>m_shaderCompilationTime :=
                         endMonitoring P (m_shaderCompilationTime (instr w))\<rparr>\<rparr>)"

subsection \<open>The capture setters\<close>

text \<open>
  The statement pair \<open>this.engine.X.remove(this._Y); this._Y = null\<close>, which the setters
  and \<open>dispose\<close> share, once for each observable.
\<close>

definition remove_onBeginFrameObserver :: "'c world \<Rightarrow> error + 'c world" where
  "remove_onBeginFrameObserver w =
     (case engine (instr w) of
        None \<Rightarrow> Inl TypeError
      | Some _ \<Rightarrow>
          Inr (w\<lparr>theEngine := (theEngine w)\<lparr>onBeginFrameObservable :=
                    Observable_remove (onBeginFrameObservable (theEngine w))
                      (m_onBeginFrameObserver (instr w))\<rparr>,
                 instr := (instr w)\<lparr>m_onBeginFrameObserver := None\<rparr>\<rparr>))"

definition remove_onEndFrameObserver :: "'c world \<Rightarrow> error + 'c world" where
  "remove_onEndFrameObserver w =
     (case engine (instr w) of
        None \<Rightarrow> Inl TypeError
      | Some _ \<Rightarrow>
          Inr (w\<lparr>theEngine := (theEngine w)\<lparr>onEndFrameObservable :=
                    Observable_remove (onEndFrameObservable (theEngine w))
                      (m_onEndFrameObserver (instr w))\<rparr>,
                 instr := (instr w)\<lparr>m_onEndFrameObserver := None\<rparr>\<rparr>))"

definition remove_onBeforeShaderCompilationObserver :: "'c world \<Rightarrow> error + 'c world" where
  "remove_onBeforeShaderCompilationObserver w =
     (case engine (instr w) of
        None \<Rightarrow> Inl TypeError
      | Some _ \<Rightarrow>
          Inr (w\<lparr>theEngine := (theEngine w)\<lparr>onBeforeShaderCompilationObservable :=
                    Observable_remove (onBeforeShaderCompilationObservable (theEngine w))
                      (m_onBeforeShaderCompilationObserver (instr w))\<rparr>,
                 instr := (instr w)\<lparr>m_onBeforeShaderCompilationObserver := None\<rparr>\<rparr>))"

definition remove_onAfterShaderCompilationObserver :: "'c world \<Rightarrow> error + 'c world" where
  "remove_onAfterShaderCompilationObserver w =
     (case engine (instr w) of
        None \<Rightarrow> Inl TypeError
      | Some _ \<Rightarrow>
          Inr (w\<lparr>theEngine := (theEngine w)\<lparr>onAfterShaderCompilationObservable :=
                    Observable_remove (onAfterShaderCompilationObservable (theEngine w))
                      (m_onAfterShaderCompilationObserver (instr w))\<rparr>,
                 instr := (instr w)\<lparr>m_onAfterShaderCompilationObserver := None\<rparr>\<rparr>))"

text \<open>Sequencing of statements that may throw.\<close>

definition and_then :: "error + 'a \<Rightarrow> ('a \<Rightarrow> error + 'b) \<Rightarrow> error + 'b" where
  "and_then m f = (case m of Inl e \<Rightarrow> Inl e | Inr x \<Rightarrow> f x)"

definition set_captureGPUFrameTime :: "bool \<Rightarrow> 'c world \<Rightarrow> error + 'c world" where
  "set_captureGPUFrameTime value w =
     (if value = m_captureGPUFrameTime (instr w) then Inr w
      else if value then
        (case engine (instr w) of
           None \<Rightarrow> Inl TypeError
         | Some _ \<Rightarrow>
             (let (h1, e1) = onBeginFrameObservable_add (theEngine w);
                  i1 = (instr w)\<lparr>m_onBeginFrameObserver := Some h1\<rparr>;
                  (h2, e2) = onEndFrameObservable_add e1;
                  i2 = i1\<lparr>m_onEndFrameObserver := Some h2\<rparr>
              in Inr (w\<lparr>theEngine := e2, instr := i2\<rparr>)))
      else and_then (remove_onBeginFrameObserver w) remove_onEndFrameObserver)"

definition set_captureShaderCompilationTime :: "bool \<Rightarrow> 'c world \<Rightarrow> error + 'c world" where
  "set_captureShaderCompilationTime value w =
     (if value = m_captureShaderCompilationTime (instr w) then Inr w
      else if value then
        (case engine (instr w) of
           None \<Rightarrow> Inl TypeError
         | Some _ \<Rightarrow>
             (let (h1, e1) = onBeforeShaderCompilationObservable_add (theEngine w);
                  i1 = (instr w)\<lparr>m_onBeforeShaderCompilationObserver := Some h1\<rparr>;
                  (h2, e2) = onAfterShaderCompilationObservable_add e1;
                  i2 = i1\<lparr>m_onAfterShaderCompilationObserver := Some h2\<rparr>
              in Inr (w\<lparr>theEngine := e2, instr := i2\<rparr>)))
      else and_then (remove_onBeforeShaderCompilationObserver w)
             remove_onAfterShaderCompilationObserver)"

subsection \<open>dispose\<close>

definition dispose :: "'c world \<Rightarrow> error + 'c world" where
  "dispose w =
     and_then (if m_onBeginFrameObserver (instr w) \<noteq> None
               then remove_onBeginFrameObserver w else Inr w) (\<lambda>w1.
     and_then (if m_onEndFrameObserver (instr w1) \<noteq> None
               then remove_onEndFrameObserver w1 else Inr w1) (\<lambda>w2.
     and_then (if m_onBeforeShaderCompilationObserver (instr w2) \<noteq> None
               then remove_onBeforeShaderCompilationObserver w2 else Inr w2) (\<lambda>w3.
     and_then (if m_onAfterShaderCompilationObserver (instr w3) \<noteq> None
               then remove_onAfterShaderCompilationObserver w3 else Inr w3) (\<lambda>w4.
     Inr (w4\<lparr>instr := (instr w4)\<lparr>engine := None\<rparr>\<rparr>)))))"

subsection \<open>Events and call sequences\<close>

text \<open>
  Modelled from the spec: when the engine raises an event, \<open>notifyObservers\<close> runs the
  callback of every registered observer, in registration order, synchronously; an
  exception of a callback propagates to the caller of the event. All observers that the
  instrumentation has put on one observable carry the same callback.
\<close>

fun notifyObservers ::
  "Observer list \<Rightarrow> ('c world \<Rightarrow> error + 'c world) \<Rightarrow> 'c world \<Rightarrow> error + 'c world" where
  "notifyObservers [] callback w = Inr w"
| "notifyObservers (h # hs) callback w =
     (case callback w of Inl e \<Rightarrow> Inl e | Inr w' \<Rightarrow> notifyObservers hs callback w')"

definition onBeginFrame :: "'c world \<Rightarrow> error + 'c world" where
  "onBeginFrame w =
     notifyObservers (onBeginFrameObservable (theEngine w)) onBeginFrame_callback w"

definition onBeforeShaderCompilation :: "'c PerfCounter \<Rightarrow> 'c world \<Rightarrow> error + 'c world" where
  "onBeforeShaderCompilation P w =
     notifyObservers (onBeforeShaderCompilationObservable (theEngine w))
       (onBeforeShaderCompilation_callback P) w"

definition onAfterShaderCompilation :: "'c PerfCounter \<Rightarrow> 'c world \<Rightarrow> error + 'c world" where
  "onAfterShaderCompilation P w =
     notifyObservers (onAfterShaderCompilationObservable (theEngine w))
       (onAfterShaderCompilation_callback P) w"

text \<open>A caller's sequence of assignments to the two capture properties.\<close>

datatype setter_call = SetCaptureGPUFrameTime bool | SetCaptureShaderCompilationTime bool

fun call_setter :: "setter_call \<Rightarrow> 'c world \<Rightarrow> error + 'c world" where
  "call_setter (SetCaptureGPUFrameTime value) w = set_captureGPUFrameTime value w"
| "call_setter (SetCaptureShaderCompilationTime value) w = set_captureShaderCompilationTime value w"

fun call_setters :: "setter_call list \<Rightarrow> 'c world \<Rightarrow> error + 'c world" where
  "call_setters [] w = Inr w"
| "call_setters (c # cs) w =
     (case call_setter c w of Inl e \<Rightarrow> Inl e | Inr w' \<Rightarrow> call_setters cs w')"

section \<open>Properties\<close>

lemmas add_defs = onBeginFrameObservable_add_def onEndFrameObservable_add_def
  onBeforeShaderCompilationObservable_add_def onAfterShaderCompilationObservable_add_def
  Observable_add_def

lemmas remove_defs = remove_onBeginFrameObserver_def remove_onEndFrameObserver_def
  remove_onBeforeShaderCompilationObserver_def remove_onAfterShaderCompilationObserver_def
  Observable_remove_def and_then_def

subsection \<open>The setters never write the capture fields\<close>

lemma set_captureGPUFrameTime_keeps:
  "engine (instr w) \<noteq> None \<Longrightarrow>
   \<exists>w'. set_captureGPUFrameTime v w = Inr w' \<and>
     m_captureGPUFrameTime (instr w') = m_captureGPUFrameTime (instr w) \<and>
     m_captureShaderCompilationTime (instr w') = m_captureShaderCompilationTime (instr w) \<and>
     engine (instr w') = engine (instr w)"
  by (auto simp: set_captureGPUFrameTime_def add_defs remove_defs Let_def
      split: option.splits)

lemma set_captureShaderCompilationTime_keeps:
  "engine (instr w) \<noteq> None \<Longrightarrow>
   \<exists>w'. set_captureShaderCompilationTime v w = Inr w' \<and>
     m_captureGPUFrameTime (instr w') = m_captureGPUFrameTime (instr w) \<and>
     m_captureShaderCompilationTime (instr w') = m_captureShaderCompilationTime (instr w) \<and>
     engine (instr w') = engine (instr w)"
  by (auto simp: set_captureShaderCompilationTime_def add_defs remove_defs Let_def
      split: option.splits)

lemma call_setter_keeps:
  "engine (instr w) \<noteq> None \<Longrightarrow>
   \<exists>w'. call_setter c w = Inr w' \<and>
     m_captureGPUFrameTime (instr w') = m_captureGPUFrameTime (instr w) \<and>
     m_captureShaderCompilationTime (instr w') = m_captureShaderCompilationTime (instr w) \<and>
     engine (instr w') = engine (instr w)"
  by (cases c)
    (simp_all add: set_captureGPUFrameTime_keeps set_captureShaderCompilationTime_keeps)

lemma call_setters_keeps:
  "engine (instr w) \<noteq> None \<Longrightarrow>
   \<exists>w'. call_setters cs w = Inr w' \<and>
     m_captureGPUFrameTime (instr w') = m_captureGPUFrameTime (instr w) \<and>
     m_captureShaderCompilationTime (instr w') = m_captureShaderCompilationTime (instr w) \<and>
     engine (instr w') = engine (instr w)"
proof (induction cs arbitrary: w)
  case Nil
  then show ?case by simp
next
  case (Cons c cs)
  from call_setter_keeps [OF Cons.prems, of c] obtain w1 where
    s: "call_setter c w = Inr w1"
      "m_captureGPUFrameTime (instr w1) = m_captureGPUFrameTime (instr w)"
      "m_captureShaderCompilationTime (instr w1) = m_captureShaderCompilationTime (instr w)"
      "engine (instr w1) = engine (instr w)"
    by blast
  with Cons.prems have "engine (instr w1) \<noteq> None" by simp
  from Cons.IH [OF this] s show ?case by auto
qed

text \<open>
  C10. Whatever sequence of assignments to \<open>captureGPUFrameTime\<close> and
  \<open>captureShaderCompilationTime\<close> a caller makes on a newly constructed
  instrumentation, with any boolean arguments, every assignment returns normally and
  afterwards both getters return false: no branch of either setter writes the field that
  its equality guard reads.
\<close>

theorem capture_getters_always_false:
  "\<exists>w'. call_setters cs (new_EngineInstrumentation P e) = Inr w' \<and>
     fst (captureGPUFrameTime w') = False \<and>
     fst (captureShaderCompilationTime w') = False"
proof -
  have "engine (instr (new_EngineInstrumentation P e)) \<noteq> None"
    by (simp add: new_EngineInstrumentation_def)
  from call_setters_keeps [OF this, of cs] show ?thesis
    by (auto simp: new_EngineInstrumentation_def captureGPUFrameTime_def
        captureShaderCompilationTime_def)
qed

theorem capture_getters_always_false_witness:
  "\<exists>w'. call_setters [SetCaptureGPUFrameTime True, SetCaptureShaderCompilationTime True,
             SetCaptureGPUFrameTime False]
           (new_EngineInstrumentation callLog freshEngine) = Inr w' \<and>
     fst (captureGPUFrameTime w') = False \<and>
     fst (captureShaderCompilationTime w') = False"
  by (rule capture_getters_always_false)

subsection \<open>What the missing write does to the toggles\<close>

lemmas setter_defs = set_captureGPUFrameTime_def set_captureShaderCompilationTime_def
  new_EngineInstrumentation_def freshEngine_def add_defs remove_defs Let_def

text \<open>
  C1. The claim is that a toggle reads true exactly when its two handles are non-null.
  The code breaks it at the first assignment of true: on a new instrumentation, after
  \<open>captureGPUFrameTime = true\<close> and \<open>captureShaderCompilationTime = true\<close> all four
  handles hold an observer, and both toggles still read false.
\<close>

theorem capture_on_reads_false:
  "\<exists>w. call_setters [SetCaptureGPUFrameTime True, SetCaptureShaderCompilationTime True]
          (new_EngineInstrumentation callLog freshEngine) = Inr w \<and>
     fst (captureGPUFrameTime w) = False \<and>
     m_onBeginFrameObserver (instr w) = Some 0 \<and>
     m_onEndFrameObserver (instr w) = Some 1 \<and>
     fst (captureShaderCompilationTime w) = False \<and>
     m_onBeforeShaderCompilationObserver (instr w) = Some 2 \<and>
     m_onAfterShaderCompilationObserver (instr w) = Some 3"
  by (simp add: setter_defs captureGPUFrameTime_def captureShaderCompilationTime_def)

text \<open>
  C2. The claim is that assigning false to a toggle that was set to true unregisters its
  two callbacks and clears its two handles. In the code the assignment of false returns at
  the equality guard, the field still being false: after true and then false, for each
  toggle, the four handles are still set and the four observers are still registered on
  the engine.
\<close>

theorem capture_off_after_on_keeps_subscriptions:
  "\<exists>w. call_setters [SetCaptureGPUFrameTime True, SetCaptureGPUFrameTime False,
            SetCaptureShaderCompilationTime True, SetCaptureShaderCompilationTime False]
          (new_EngineInstrumentation callLog freshEngine) = Inr w \<and>
     m_onBeginFrameObserver (instr w) = Some 0 \<and>
     m_onEndFrameObserver (instr w) = Some 1 \<and>
     m_onBeforeShaderCompilationObserver (instr w) = Some 2 \<and>
     m_onAfterShaderCompilationObserver (instr w) = Some 3 \<and>
     onBeginFrameObservable (theEngine w) = [0] \<and>
     onEndFrameObservable (theEngine w) = [1] \<and>
     onBeforeShaderCompilationObservable (theEngine w) = [2] \<and>
     onAfterShaderCompilationObservable (theEngine w) = [3]"
  by (simp add: setter_defs)

text \<open>
  C3. The claim is that assigning true twice in a row leaves one set of subscriptions.
  In the code the second assignment passes the guard again and registers a second pair:
  after true, true for each toggle, every observable of the engine holds two observers of
  the instrumentation.
\<close>

theorem capture_on_twice_registers_twice:
  "\<exists>w. call_setters [SetCaptureGPUFrameTime True, SetCaptureGPUFrameTime True,
            SetCaptureShaderCompilationTime True, SetCaptureShaderCompilationTime True]
          (new_EngineInstrumentation callLog freshEngine) = Inr w \<and>
     onBeginFrameObservable (theEngine w) = [0, 2] \<and>
     onEndFrameObservable (theEngine w) = [1, 3] \<and>
     onBeforeShaderCompilationObservable (theEngine w) = [4, 6] \<and>
     onAfterShaderCompilationObservable (theEngine w) = [5, 7]"
  by (simp add: setter_defs)

subsection \<open>The GPU frame time callbacks\<close>

text \<open>
  On whole-number answers the guard \<open>time > -1\<close> of the end-frame callback is the test
  for a non-negative answer.
\<close>

lemma onEndFrame_callback_whole_answer:
  "time \<in> \<int> \<Longrightarrow>
   onEndFrame_callback P time w =
     (if m_gpuFrameTimeToken (instr w) = None then Inr w
      else if engine (instr w) = None then Inl TypeError
      else if 0 \<le> time then
        Inr (w\<lparr>instr := (instr w)
               \<lparr>m_gpuFrameTimeToken := None,
                m_gpuFrameTime :=
                  addCount P time True (fetchNewFrame P (m_gpuFrameTime (instr w)))\<rparr>\<rparr>)
      else Inr w)"
proof -
  assume "time \<in> \<int>"
  then obtain z :: int where z: "time = of_int z"
    by (rule Ints_cases)
  have "(- 1 < z) = (0 \<le> z)"
    by arith
  then have "(- 1 < time) = (0 \<le> time)"
    unfolding z by (metis of_int_0_le_iff of_int_less_iff of_int_minus of_int_1)
  then show ?thesis
    by (auto simp: onEndFrame_callback_def Let_def split: option.splits)
qed




lemma notifyObservers_onBeginFrame_token:
  "m_gpuFrameTimeToken (instr w) \<noteq> None \<Longrightarrow>
   notifyObservers hs onBeginFrame_callback w = Inr w"
  by (induction hs) (auto simp: onBeginFrame_callback_def)

text \<open>
  C5. There is one token slot, and a timer query is started only to fill it: the
  begin-frame callback starts a query and stores its token when the slot is null, and does
  nothing otherwise. So a begin-frame event, however many observers of the
  instrumentation it notifies, starts one query when no token is outstanding and none
  when one is: in that case it leaves the whole state as it is. This holds in every
  state, so in every reachable one.
\<close>

theorem onBeginFrame_starts_query_only_without_token:
  "onBeginFrame_callback w =
     (if m_gpuFrameTimeToken (instr w) \<noteq> None then Inr w
      else if engine (instr w) = None then Inl TypeError
      else Inr (w\<lparr>theEngine := (theEngine w)
                    \<lparr>timeQueriesStarted := Suc (timeQueriesStarted (theEngine w))\<rparr>,
                  instr := (instr w)
                    \<lparr>m_gpuFrameTimeToken := Some (timeQueriesStarted (theEngine w))\<rparr>\<rparr>)) \<and>
   onBeginFrame w =
     (if m_gpuFrameTimeToken (instr w) \<noteq> None then Inr w
      else if onBeginFrameObservable (theEngine w) = [] then Inr w
      else if engine (instr w) = None then Inl TypeError
      else Inr (w\<lparr>theEngine := (theEngine w)
                    \<lparr>timeQueriesStarted := Suc (timeQueriesStarted (theEngine w))\<rparr>,
                  instr := (instr w)
                    \<lparr>m_gpuFrameTimeToken := Some (timeQueriesStarted (theEngine w))\<rparr>\<rparr>))"
proof -
  let ?w' = "w\<lparr>theEngine := (theEngine w)
                 \<lparr>timeQueriesStarted := Suc (timeQueriesStarted (theEngine w))\<rparr>,
               instr := (instr w)
                 \<lparr>m_gpuFrameTimeToken := Some (timeQueriesStarted (theEngine w))\<rparr>\<rparr>"
  have cb: "onBeginFrame_callback w =
     (if m_gpuFrameTimeToken (instr w) \<noteq> None then Inr w
      else if engine (instr w) = None then Inl TypeError
      else Inr ?w')"
    by (auto simp: onBeginFrame_callback_def startTimeQuery_def split: option.splits)
  have ev: "onBeginFrame w =
     (if m_gpuFrameTimeToken (instr w) \<noteq> None then Inr w
      else if onBeginFrameObservable (theEngine w) = [] then Inr w
      else if engine (instr w) = None then Inl TypeError
      else Inr ?w')"
  proof (cases "onBeginFrameObservable (theEngine w)")
    case Nil
    then show ?thesis by (simp add: onBeginFrame_def)
  next
    case (Cons h hs)
    have "notifyObservers hs onBeginFrame_callback ?w' = Inr ?w'"
      by (rule notifyObservers_onBeginFrame_token) simp
    with Cons cb show ?thesis
      by (simp add: onBeginFrame_def notifyObservers_onBeginFrame_token)
  qed
  from cb ev show ?thesis by (rule conjI)
qed

theorem onBeginFrame_starts_query_only_without_token_witness:
  "\<exists>w1 w2.
     call_setters [SetCaptureGPUFrameTime True, SetCaptureGPUFrameTime True]
       (new_EngineInstrumentation callLog freshEngine) = Inr w1 \<and>
     onBeginFrameObservable (theEngine w1) = [0, 2] \<and>
     timeQueriesStarted (theEngine w1) = 0 \<and>
     onBeginFrame w1 = Inr w2 \<and>
     m_gpuFrameTimeToken (instr w2) = Some 0 \<and>
     timeQueriesStarted (theEngine w2) = 1 \<and>
     onBeginFrame w2 = Inr w2"
  by (simp add: onBeginFrame_starts_query_only_without_token setter_defs)

text \<open>
  C6. When the end-frame callback finds a token outstanding and the engine answers with
  a ready value, it writes null to the token slot, calls \<open>fetchNewFrame()\<close> on the GPU
  frame time accumulator and then \<open>addCount(time, true)\<close> on the result, and changes
  nothing else. The two accumulator calls are composed in this order; the write to the
  token slot is the first of the three statements in the source and the model.
\<close>

theorem onEndFrame_callback_ready:
  "m_gpuFrameTimeToken (instr w) \<noteq> None \<Longrightarrow> engine (instr w) \<noteq> None \<Longrightarrow> 0 \<le> time \<Longrightarrow>
   onEndFrame_callback P time w =
     Inr (w\<lparr>instr := (instr w)
            \<lparr>m_gpuFrameTimeToken := None,
             m_gpuFrameTime :=
               addCount P time True (fetchNewFrame P (m_gpuFrameTime (instr w)))\<rparr>\<rparr>)"
  by (auto simp: onEndFrame_callback_def Let_def split: option.splits)

theorem onEndFrame_callback_ready_witness:
  "\<exists>w1 w2 w3.
     set_captureGPUFrameTime True (new_EngineInstrumentation callLog freshEngine) = Inr w1 \<and>
     onBeginFrame_callback w1 = Inr w2 \<and>
     m_gpuFrameTimeToken (instr w2) \<noteq> None \<and>
     engine (instr w2) \<noteq> None \<and>
     (0 :: real) \<le> 5000000 \<and>
     onEndFrame_callback callLog 5000000 w2 = Inr w3 \<and>
     m_gpuFrameTimeToken (instr w3) = None \<and>
     m_gpuFrameTime (instr w3) = [FetchNewFrame, AddCount 5000000 True] \<and>
     m_shaderCompilationTime (instr w3) = []"
  by (simp add: onEndFrame_callback_ready setter_defs onBeginFrame_callback_def
      startTimeQuery_def callLog_def)

subsection \<open>dispose\<close>

text \<open>
  On a bound instrumentation \<open>dispose\<close> returns normally: it removes from each
  observable the observer that the matching handle holds, if any, clears the four handles
  and the engine reference, and leaves the rest of the state as it is.
\<close>

lemma dispose_bound:
  "engine (instr w) \<noteq> None \<Longrightarrow>
   dispose w =
     Inr \<lparr>theEngine = (theEngine w)
            \<lparr>onBeginFrameObservable :=
               Observable_remove (onBeginFrameObservable (theEngine w))
                 (m_onBeginFrameObserver (instr w)),
             onEndFrameObservable :=
               Observable_remove (onEndFrameObservable (theEngine w))
                 (m_onEndFrameObserver (instr w)),
             onBeforeShaderCompilationObservable :=
               Observable_remove (onBeforeShaderCompilationObservable (theEngine w))
                 (m_onBeforeShaderCompilationObserver (instr w)),
             onAfterShaderCompilationObservable :=
               Observable_remove (onAfterShaderCompilationObservable (theEngine w))
                 (m_onAfterShaderCompilationObserver (instr w))\<rparr>,
          instr = (instr w)
            \<lparr>m_onBeginFrameObserver := None, m_onEndFrameObserver := None,
             m_onBeforeShaderCompilationObserver := None,
             m_onAfterShaderCompilationObserver := None, engine := None\<rparr>\<rparr>"
  by (cases w; cases "theEngine w"; cases "instr w")
    (auto simp: dispose_def remove_defs split: option.splits)

lemma dispose_after_single_registration:
  "\<exists>w. and_then (call_setters [SetCaptureGPUFrameTime True, SetCaptureShaderCompilationTime True]
                   (new_EngineInstrumentation callLog freshEngine)) dispose = Inr w \<and>
     onBeginFrameObservable (theEngine w) = [] \<and>
     onEndFrameObservable (theEngine w) = [] \<and>
     onBeforeShaderCompilationObservable (theEngine w) = [] \<and>
     onAfterShaderCompilationObservable (theEngine w) = []"
  by (simp add: setter_defs dispose_def)

text \<open>
  C7. The claim is that after \<open>dispose\<close> no subscription of the instrumentation is left
  on the engine, whatever was switched on before. \<open>dispose\<close> reaches only the observers
  that the four handles hold. After \<open>captureGPUFrameTime = true\<close> twice, the handles of
  the first pair have been overwritten: \<open>dispose\<close> returns with the four handles and the
  engine reference null, and the first begin-frame and end-frame observers are still
  registered on the engine.
\<close>

theorem dispose_leaves_overwritten_observers:
  "\<exists>w. and_then (call_setters [SetCaptureGPUFrameTime True, SetCaptureGPUFrameTime True]
                   (new_EngineInstrumentation callLog freshEngine)) dispose = Inr w \<and>
     m_onBeginFrameObserver (instr w) = None \<and>
     m_onEndFrameObserver (instr w) = None \<and>
     m_onBeforeShaderCompilationObserver (instr w) = None \<and>
     m_onAfterShaderCompilationObserver (instr w) = None \<and>
     engine (instr w) = None \<and>
     onBeginFrameObservable (theEngine w) = [0] \<and>
     onEndFrameObservable (theEngine w) = [1]"
  by (simp add: setter_defs dispose_def)

subsection \<open>The read accessors\<close>

text \<open>
  C8. Each public read accessor returns its value and leaves the whole state as it is:
  the engine, both accumulators, the four handles, the token, both capture fields and the
  engine reference.
\<close>

theorem getters_leave_state_unchanged:
  "snd (currentGPUFrameTime R w) = w \<and>
   snd (averageGPUFrameTime R w) = w \<and>
   snd (currentShaderCompilationTime R w) = w \<and>
   snd (averageShaderCompilationTime R w) = w \<and>
   snd (totalShaderCompilationTime R w) = w \<and>
   snd (compiledShadersCount R w) = w \<and>
   snd (captureGPUFrameTime w) = w \<and>
   snd (captureShaderCompilationTime w) = w"
  by (simp add: currentGPUFrameTime_def averageGPUFrameTime_def
      currentShaderCompilationTime_def averageShaderCompilationTime_def
      totalShaderCompilationTime_def compiledShadersCount_def
      captureGPUFrameTime_def captureShaderCompilationTime_def)

subsection \<open>The shader compilation callbacks\<close>

lemma notifyObservers_onBeforeShaderCompilation:
  "notifyObservers hs (onBeforeShaderCompilation_callback P) w =
     Inr (w\<lparr>instr := (instr w)\<lparr>m_shaderCompilationTime :=
            ((\<lambda>c. beginMonitoring P (fetchNewFrame P c)) ^^ length hs)
              (m_shaderCompilationTime (instr w))\<rparr>\<rparr>)"
  by (induction hs arbitrary: w)
    (simp_all add: onBeforeShaderCompilation_callback_def Let_def funpow_Suc_right
      del: funpow.simps)

lemma notifyObservers_onAfterShaderCompilation:
  "notifyObservers hs (onAfterShaderCompilation_callback P) w =
     Inr (w\<lparr>instr := (instr w)\<lparr>m_shaderCompilationTime :=
            (endMonitoring P ^^ length hs) (m_shaderCompilationTime (instr w))\<rparr>\<rparr>)"
  by (induction hs arbitrary: w)
    (simp_all add: onAfterShaderCompilation_callback_def Let_def funpow_Suc_right
      del: funpow.simps)

text \<open>
  C9. The before-compilation callback calls \<open>fetchNewFrame()\<close> and then
  \<open>beginMonitoring()\<close> on the compilation time accumulator, the after-compilation
  callback calls \<open>endMonitoring()\<close> on it, and neither changes anything else: no other
  accumulator call, nothing on the GPU frame time accumulator. A before-compilation or
  after-compilation event does this once for every observer registered on its observable,
  so once while the capture is registered once and not at all while it is not.
\<close>

theorem shaderCompilation_callbacks_bracket:
  "onBeforeShaderCompilation_callback P w =
     Inr (w\<lparr>instr := (instr w)\<lparr>m_shaderCompilationTime :=
            beginMonitoring P (fetchNewFrame P (m_shaderCompilationTime (instr w)))\<rparr>\<rparr>) \<and>
   onAfterShaderCompilation_callback P w =
     Inr (w\<lparr>instr := (instr w)\<lparr>m_shaderCompilationTime :=
            endMonitoring P (m_shaderCompilationTime (instr w))\<rparr>\<rparr>) \<and>
   onBeforeShaderCompilation P w =
     Inr (w\<lparr>instr := (instr w)\<lparr>m_shaderCompilationTime :=
            ((\<lambda>c. beginMonitoring P (fetchNewFrame P c)) ^^
               length (onBeforeShaderCompilationObservable (theEngine w)))
              (m_shaderCompilationTime (instr w))\<rparr>\<rparr>) \<and>
   onAfterShaderCompilation P w =
     Inr (w\<lparr>instr := (instr w)\<lparr>m_shaderCompilationTime :=
            (endMonitoring P ^^ length (onAfterShaderCompilationObservable (theEngine w)))
              (m_shaderCompilationTime (instr w))\<rparr>\<rparr>)"
proof (intro conjI)
  show "onBeforeShaderCompilation_callback P w =
     Inr (w\<lparr>instr := (instr w)\<lparr>m_shaderCompilationTime :=
            beginMonitoring P (fetchNewFrame P (m_shaderCompilationTime (instr w)))\<rparr>\<rparr>)"
    by (simp add: onBeforeShaderCompilation_callback_def Let_def)
  show "onAfterShaderCompilation_callback P w =
     Inr (w\<lparr>instr := (instr w)\<lparr>m_shaderCompilationTime :=
            endMonitoring P (m_shaderCompilationTime (instr w))\<rparr>\<rparr>)"
    by (simp add: onAfterShaderCompilation_callback_def)
  show "onBeforeShaderCompilation P w =
     Inr (w\<lparr>instr := (instr w)\<lparr>m_shaderCompilationTime :=
            ((\<lambda>c. beginMonitoring P (fetchNewFrame P c)) ^^
               length (onBeforeShaderCompilationObservable (theEngine w)))
              (m_shaderCompilationTime (instr w))\<rparr>\<rparr>)"
    unfolding onBeforeShaderCompilation_def
    by (rule notifyObservers_onBeforeShaderCompilation)
  show "onAfterShaderCompilation P w =
     Inr (w\<lparr>instr := (instr w)\<lparr>m_shaderCompilationTime :=
            (endMonitoring P ^^ length (onAfterShaderCompilationObservable (theEngine w)))
              (m_shaderCompilationTime (instr w))\<rparr>\<rparr>)"
    unfolding onAfterShaderCompilation_def
    by (rule notifyObservers_onAfterShaderCompilation)
qed

theorem shaderCompilation_callbacks_bracket_witness:
  "\<exists>w1 w2 w3.
     set_captureShaderCompilationTime True (new_EngineInstrumentation callLog freshEngine)
       = Inr w1 \<and>
     onBeforeShaderCompilationObservable (theEngine w1) = [0] \<and>
     onAfterShaderCompilationObservable (theEngine w1) = [1] \<and>
     onBeforeShaderCompilation callLog w1 = Inr w2 \<and>
     m_shaderCompilationTime (instr w2) = [FetchNewFrame, BeginMonitoring] \<and>
     onAfterShaderCompilation callLog w2 = Inr w3 \<and>
     m_shaderCompilationTime (instr w3) = [FetchNewFrame, BeginMonitoring, EndMonitoring] \<and>
     m_gpuFrameTime (instr w3) = []"
  by (simp add: shaderCompilation_callbacks_bracket setter_defs callLog_def)

end
